theory Spec2Isabelle
  imports Main "HOL-Library.Multiset"
begin

section \<open>JavaScript string and number helpers used by the front ends\<close>

text \<open>
  Strings are modelled as \<^typ>\<open>string\<close>. Numbers that the modelled code handles are
  integer valued; they are modelled as \<^typ>\<open>int\<close>, and the JavaScript value \<open>NaN\<close> as
  \<open>None\<close> of \<^typ>\<open>int option\<close>. The model keeps integers exact: the rounding of
  JavaScript doubles beyond \<open>2^53\<close> and the exponent notation of \<open>toString\<close> from
  \<open>10^21\<close> on are outside the model.
\<close>

text \<open>\<open>s.split(sep)\<close> for a one-character separator: never returns the empty array.\<close>

fun split_str :: "char \<Rightarrow> string \<Rightarrow> string list" where
  "split_str sep [] = [[]]"
| "split_str sep (c # cs) =
     (if c = sep then [] # split_str sep cs
      else (case split_str sep cs of
              [] \<Rightarrow> [[c]]
            | p # ps \<Rightarrow> (c # p) # ps))"

text \<open>\<open>s.startsWith(p)\<close>.\<close>

fun startsWith :: "string \<Rightarrow> string \<Rightarrow> bool" where
  "startsWith s [] = True"
| "startsWith [] (p # ps) = False"
| "startsWith (c # cs) (p # ps) = (c = p \<and> startsWith cs ps)"


text \<open>\<open>s.replace(pat, rep)\<close> with a string pattern: only the first occurrence is replaced.\<close>

fun replace_first :: "string \<Rightarrow> string \<Rightarrow> string \<Rightarrow> string" where
  "replace_first [] pat rep = (if pat = [] then rep else [])"
| "replace_first (c # cs) pat rep =
     (if startsWith (c # cs) pat then rep @ drop (length pat) (c # cs)
      else c # replace_first cs pat rep)"

text \<open>Decimal digits of a natural number, as \<open>Number.prototype.toString\<close> prints them.\<close>

definition digit_char :: "nat \<Rightarrow> char" where
  "digit_char d = ''0123456789'' ! d"

fun nat_to_string :: "nat \<Rightarrow> string" where
  "nat_to_string n =
     (if n < 10 then [digit_char n]
      else nat_to_string (n div 10) @ [digit_char (n mod 10)])"

declare nat_to_string.simps [simp del]

definition int_to_string :: "int \<Rightarrow> string" where
  "int_to_string i =
     (if i < 0 then CHR ''-'' # nat_to_string (nat (- i)) else nat_to_string (nat i))"

text \<open>\<open>String(n)\<close> of a number that may be \<open>NaN\<close>.\<close>

definition num_to_string :: "int option \<Rightarrow> string" where
  "num_to_string n = (case n of None \<Rightarrow> ''NaN'' | Some i \<Rightarrow> int_to_string i)"

text \<open>
  \<open>parseInt(s)\<close> with no radix argument: leading white space is skipped (the model
  knows the ASCII white space), one sign is read, a \<open>0x\<close> or \<open>0X\<close> prefix selects
  base 16, then the longest run of digits is read; no digit gives \<open>NaN\<close>.
\<close>

definition is_space :: "char \<Rightarrow> bool" where
  "is_space c = (c \<in> set [CHR '' '', CHR 0x09, CHR 0x0A, CHR 0x0B, CHR 0x0C, CHR 0x0D])"

definition digit_val :: "nat \<Rightarrow> char \<Rightarrow> nat option" where
  "digit_val radix c =
     (let k = of_char c :: nat;
          v = (if 48 \<le> k \<and> k \<le> 57 then Some (k - 48)
               else if 97 \<le> k \<and> k \<le> 122 then Some (k - 87)
               else if 65 \<le> k \<and> k \<le> 90 then Some (k - 55)
               else None)
      in case v of None \<Rightarrow> None | Some d \<Rightarrow> if d < radix then Some d else None)"

fun read_digits :: "nat \<Rightarrow> nat option \<Rightarrow> string \<Rightarrow> nat option" where
  "read_digits radix acc [] = acc"
| "read_digits radix acc (c # cs) =
     (case digit_val radix c of
        None \<Rightarrow> acc
      | Some d \<Rightarrow> read_digits radix (Some ((case acc of None \<Rightarrow> 0 | Some a \<Rightarrow> a) * radix + d)) cs)"

definition apply_sign :: "bool \<Rightarrow> nat option \<Rightarrow> int option" where
  "apply_sign neg v = (case v of None \<Rightarrow> None | Some n \<Rightarrow> Some (if neg then - int n else int n))"

definition parse_unsigned :: "string \<Rightarrow> nat option" where
  "parse_unsigned s =
     (if startsWith s ''0x'' \<or> startsWith s ''0X''
      then read_digits 16 None (drop 2 s)
      else read_digits 10 None s)"

definition parseInt :: "string \<Rightarrow> int option" where
  "parseInt s =
     (case dropWhile is_space s of
        [] \<Rightarrow> None
      | c # cs \<Rightarrow>
          if c = CHR ''-'' then apply_sign True (parse_unsigned cs)
          else if c = CHR ''+'' then apply_sign False (parse_unsigned cs)
          else apply_sign False (parse_unsigned (c # cs)))"

text \<open>\<open>s.padStart(2, '0')\<close>.\<close>

definition padStart2 :: "string \<Rightarrow> string" where
  "padStart2 s = replicate (2 - length s) CHR ''0'' @ s"

section \<open>Schedules: the simple-frequency view of a cron expression\<close>

text \<open>
  \<open>parseCronToSimple\<close> and \<open>updateCronFromSimple\<close> of the server's Schedules page and of
  the desktop schedules dialog (the two copies are the same code). The component state
  they read and write is the form data and the five simple-mode fields.
\<close>

datatype frequency = Hourly | Interval | Daily | Weekly | Monthly

record schedule_form =
  config_id :: string
  cron_expression :: string
  enabled :: bool
  simpleFreq :: frequency
  simpleInterval :: int
  simpleTime :: string
  simpleDow :: string
  simpleDom :: string

text \<open>The initial values of the \<open>useState\<close> hooks.\<close>

definition initial_form :: schedule_form where
  "initial_form =
     \<lparr>config_id = [], cron_expression = ''0 0 * * *'', enabled = True,
      simpleFreq = Daily, simpleInterval = 6, simpleTime = ''00:00'',
      simpleDow = ''1'', simpleDom = ''1''\<rparr>"

text \<open>\<open>pad(n) = n.toString().padStart(2, '0')\<close>.\<close>

definition pad :: "int option \<Rightarrow> string" where
  "pad n = padStart2 (num_to_string n)"

text \<open>The template \<open>`${pad(parseInt(hour))}:${pad(parseInt(min))}`\<close>.\<close>

definition time_of_fields :: "string \<Rightarrow> string \<Rightarrow> string" where
  "time_of_fields hour minf = pad (parseInt hour) @ '':'' @ pad (parseInt minf)"

text \<open>
  The tests of the five branches, on the first five fields (\<open>minf\<close> and \<open>domf\<close> are the
  source's \<open>min\<close> and \<open>dom\<close>). The branches are tried in this order, so a later pattern applies only
  when the earlier ones have failed.
\<close>

definition hourly_pattern :: "string \<Rightarrow> string \<Rightarrow> string \<Rightarrow> string \<Rightarrow> string \<Rightarrow> bool" where
  "hourly_pattern minf hour domf mon dow =
     (minf = ''0'' \<and> hour = ''*'' \<and> domf = ''*'' \<and> mon = ''*'' \<and> dow = ''*'')"

definition interval_pattern :: "string \<Rightarrow> string \<Rightarrow> string \<Rightarrow> string \<Rightarrow> string \<Rightarrow> bool" where
  "interval_pattern minf hour domf mon dow =
     (minf = ''0'' \<and> startsWith hour ''*/'' \<and> domf = ''*'' \<and> mon = ''*'' \<and> dow = ''*'')"

definition daily_pattern :: "string \<Rightarrow> string \<Rightarrow> string \<Rightarrow> string \<Rightarrow> string \<Rightarrow> bool" where
  "daily_pattern minf hour domf mon dow = (domf = ''*'' \<and> mon = ''*'' \<and> dow = ''*'')"

definition weekly_pattern :: "string \<Rightarrow> string \<Rightarrow> string \<Rightarrow> string \<Rightarrow> string \<Rightarrow> bool" where
  "weekly_pattern minf hour domf mon dow = (domf = ''*'' \<and> mon = ''*'' \<and> dow \<noteq> ''*'')"

definition monthly_pattern :: "string \<Rightarrow> string \<Rightarrow> string \<Rightarrow> string \<Rightarrow> string \<Rightarrow> bool" where
  "monthly_pattern minf hour domf mon dow = (domf \<noteq> ''*'' \<and> mon = ''*'' \<and> dow = ''*'')"

text \<open>The four setter calls under the source's \<open>// Reset\<close> comment.\<close>

definition reset_simple :: "schedule_form \<Rightarrow> schedule_form" where
  "reset_simple st =
     st\<lparr>simpleInterval := 6, simpleTime := ''00:00'', simpleDow := ''1'', simpleDom := ''1''\<rparr>"

definition parseCronToSimple :: "string \<Rightarrow> schedule_form \<Rightarrow> schedule_form" where
  "parseCronToSimple cron st =
     (let parts = split_str CHR '' '' cron in
      if length parts < 5 then st
      else
        let minf = parts ! 0; hour = parts ! 1; domf = parts ! 2; mon = parts ! 3;
            dow = parts ! 4;
            r = reset_simple st
        in
        if hourly_pattern minf hour domf mon dow then r\<lparr>simpleFreq := Hourly\<rparr>
        else if interval_pattern minf hour domf mon dow then
          (case parseInt (replace_first hour ''*/'' []) of
             None \<Rightarrow> r\<lparr>simpleFreq := Interval\<rparr>
           | Some interval \<Rightarrow> r\<lparr>simpleFreq := Interval, simpleInterval := interval\<rparr>)
        else if daily_pattern minf hour domf mon dow then
          r\<lparr>simpleFreq := Daily, simpleTime := time_of_fields hour minf\<rparr>
        else if weekly_pattern minf hour domf mon dow then
          r\<lparr>simpleFreq := Weekly, simpleDow := dow, simpleTime := time_of_fields hour minf\<rparr>
        else if monthly_pattern minf hour domf mon dow then
          r\<lparr>simpleFreq := Monthly, simpleDom := domf, simpleTime := time_of_fields hour minf\<rparr>
        else r\<lparr>simpleFreq := Daily, simpleTime := ''00:00''\<rparr>)"

text \<open>
  \<open>updateCronFromSimple\<close>. \<open>parseInt(n) || 0\<close> turns both \<open>NaN\<close> and \<open>0\<close> into \<open>0\<close>;
  the destructuring \<open>[h, m]\<close> leaves \<open>m\<close> undefined when the time holds no colon, and
  the template then prints the text \<open>undefined\<close>.
\<close>

definition parseInt_or_0 :: "string \<Rightarrow> int" where
  "parseInt_or_0 n = (case parseInt n of None \<Rightarrow> 0 | Some i \<Rightarrow> i)"

definition nth_or_undefined :: "int list \<Rightarrow> nat \<Rightarrow> string" where
  "nth_or_undefined xs k = (if k < length xs then int_to_string (xs ! k) else ''undefined'')"

definition updateCronFromSimple :: "schedule_form \<Rightarrow> schedule_form" where
  "updateCronFromSimple st =
     (let nums = map parseInt_or_0 (split_str CHR '':'' (simpleTime st));
          h = nth_or_undefined nums 0;
          m = nth_or_undefined nums 1;
          cron = (case simpleFreq st of
                    Hourly \<Rightarrow> ''0 * * * *''
                  | Interval \<Rightarrow> ''0 */'' @ int_to_string (simpleInterval st) @ '' * * *''
                  | Daily \<Rightarrow> m @ '' '' @ h @ '' * * *''
                  | Weekly \<Rightarrow> m @ '' '' @ h @ '' * * '' @ simpleDow st
                  | Monthly \<Rightarrow> m @ '' '' @ h @ '' '' @ simpleDom st @ '' * *'')
      in st\<lparr>cron_expression := cron\<rparr>)"

section \<open>Playlist selector: the rate-limit panel\<close>

text \<open>
  The branch \<open>if (rateLimited)\<close> of \<open>PlaylistSelector\<close>: what it shows for a wait time
  \<open>waitTime\<close> in seconds. The wait time is a whole number of seconds (\<open>parseInt\<close> of a
  digit run, or 60, counted down by the timer).
\<close>

record rate_limit_panel =
  panel_title :: string
  panel_clock :: string
  panel_detail :: string
  panel_color :: string

definition rateLimitPanel :: "int \<Rightarrow> rate_limit_panel" where
  "rateLimitPanel waitTime =
     (let remaining = max 0 waitTime;
          isSpotifyBan = remaining > 120;
          h = remaining div 3600;
          m = (remaining mod 3600) div 60;
          s = remaining mod 60;
          timeStr =
            (if h > 0 then int_to_string h @ ''h '' @ int_to_string m @ ''m '' @ int_to_string s @ ''s''
             else if m > 0 then int_to_string m @ ''m '' @ int_to_string s @ ''s''
             else int_to_string s @ ''s'')
      in \<lparr>panel_title = (if isSpotifyBan then ''Spotify Account Lock'' else ''Local Safety Back-off''),
          panel_clock = timeStr,
          panel_detail = (if isSpotifyBan then ''Spotify has locked your API access (roughly 24h).''
                          else ''Internal protection engaged for 60s.''),
          panel_color = (if isSpotifyBan then ''#ff4500'' else ''#ffa500'')\<rparr>)"

section \<open>The desktop application store\<close>

record SortRule =
  rule_id :: string
  criteria :: string
  descending :: bool

text \<open>\<open>Partial<SortRule>\<close>: every field may be absent.\<close>

record PartialSortRule =
  opt_id :: "string option"
  opt_criteria :: "string option"
  opt_descending :: "bool option"

record Playlist =
  playlist_id :: string
  playlist_name :: string
  owner :: string
  editable :: bool
  collaborative :: bool
  isPublic :: bool

record AppState =
  isLoggedIn :: bool
  userName :: string
  sortEnabled :: bool
  sortRules :: "SortRule list"
  dupesEnabled :: bool
  dupePreference :: string
  versionEnabled :: bool
  versionPreference :: string
  playlists :: "Playlist list"
  selectedPlaylistIds :: "string list"
  filterType :: string
  searchQuery :: string
  isProcessing :: bool
  statusText :: string
  shouldCancel :: bool

text \<open>
  The initial state. \<open>generateId()\<close> draws a random identifier; the four identifiers
  drawn for the default rules are parameters here.
\<close>

definition initial_state :: "string \<Rightarrow> string \<Rightarrow> string \<Rightarrow> string \<Rightarrow> AppState" where
  "initial_state g1 g2 g3 g4 =
     \<lparr>isLoggedIn = False, userName = [],
      sortEnabled = True,
      sortRules =
        [\<lparr>rule_id = g1, criteria = ''Release Date'', descending = True\<rparr>,
         \<lparr>rule_id = g2, criteria = ''Artist'', descending = False\<rparr>,
         \<lparr>rule_id = g3, criteria = ''Album'', descending = False\<rparr>,
         \<lparr>rule_id = g4, criteria = ''Track Name'', descending = False\<rparr>],
      dupesEnabled = False, dupePreference = ''Keep Oldest (Release Date)'',
      versionEnabled = False, versionPreference = ''Artist Only: Oldest Version'',
      playlists = [], selectedPlaylistIds = [],
      filterType = ''Editable Only'', searchQuery = [],
      isProcessing = False, statusText = ''Ready'',
      shouldCancel = False\<rparr>"

text \<open>
  \<open>rule?.criteria || 'Artist'\<close>: an absent rule, an absent field and the empty string
  all give \<open>'Artist'\<close>. \<open>rule?.descending ?? false\<close>: absent gives \<open>false\<close>.
\<close>

definition new_criteria :: "PartialSortRule option \<Rightarrow> string" where
  "new_criteria rule =
     (case rule of
        None \<Rightarrow> ''Artist''
      | Some r \<Rightarrow> (case opt_criteria r of
                    None \<Rightarrow> ''Artist''
                  | Some c \<Rightarrow> if c = [] then ''Artist'' else c))"

definition new_descending :: "PartialSortRule option \<Rightarrow> bool" where
  "new_descending rule =
     (case rule of
        None \<Rightarrow> False
      | Some r \<Rightarrow> (case opt_descending r of None \<Rightarrow> False | Some d \<Rightarrow> d))"

text \<open>\<open>addSortRule\<close>; \<open>gid\<close> is the identifier that \<open>generateId()\<close> returns.\<close>

definition addSortRule :: "string \<Rightarrow> PartialSortRule option \<Rightarrow> AppState \<Rightarrow> AppState" where
  "addSortRule gid rule st =
     (if length (sortRules st) \<ge> 8 then st
      else st\<lparr>sortRules := sortRules st @
             [\<lparr>rule_id = gid, criteria = new_criteria rule, descending = new_descending rule\<rparr>]\<rparr>)"

definition removeSortRule :: "string \<Rightarrow> AppState \<Rightarrow> AppState" where
  "removeSortRule i st =
     (if length (sortRules st) \<le> 1 then st
      else st\<lparr>sortRules := filter (\<lambda>r. rule_id r \<noteq> i) (sortRules st)\<rparr>)"

text \<open>The object spread \<open>{ ...r, ...updates }\<close>.\<close>

definition spread_rule :: "SortRule \<Rightarrow> PartialSortRule \<Rightarrow> SortRule" where
  "spread_rule r updates =
     \<lparr>rule_id = (case opt_id updates of None \<Rightarrow> rule_id r | Some v \<Rightarrow> v),
      criteria = (case opt_criteria updates of None \<Rightarrow> criteria r | Some v \<Rightarrow> v),
      descending = (case opt_descending updates of None \<Rightarrow> descending r | Some v \<Rightarrow> v)\<rparr>"

definition updateSortRule :: "string \<Rightarrow> PartialSortRule \<Rightarrow> AppState \<Rightarrow> AppState" where
  "updateSortRule i updates st =
     st\<lparr>sortRules := map (\<lambda>r. if rule_id r = i then spread_rule r updates else r) (sortRules st)\<rparr>"

definition reorderSortRules :: "SortRule list \<Rightarrow> AppState \<Rightarrow> AppState" where
  "reorderSortRules newOrder st = st\<lparr>sortRules := newOrder\<rparr>"

definition setStatus :: "string \<Rightarrow> AppState \<Rightarrow> AppState" where
  "setStatus text st = st\<lparr>statusText := text\<rparr>"

definition cancelProcessing :: "AppState \<Rightarrow> AppState" where
  "cancelProcessing st = st\<lparr>shouldCancel := True\<rparr>"

definition resetCancel :: "AppState \<Rightarrow> AppState" where
  "resetCancel st = st\<lparr>shouldCancel := False\<rparr>"

text \<open>Sequences of the three rule actions that change rules one at a time.\<close>

datatype rule_action =
    AddRule string "PartialSortRule option"
  | RemoveRule string
  | UpdateRule string PartialSortRule

fun apply_rule_action :: "rule_action \<Rightarrow> AppState \<Rightarrow> AppState" where
  "apply_rule_action (AddRule gid rule) st = addSortRule gid rule st"
| "apply_rule_action (RemoveRule i) st = removeSortRule i st"
| "apply_rule_action (UpdateRule i updates) st = updateSortRule i updates st"

fun run_rule_actions :: "rule_action list \<Rightarrow> AppState \<Rightarrow> AppState" where
  "run_rule_actions [] st = st"
| "run_rule_actions (a # as) st = run_rule_actions as (apply_rule_action a st)"

section \<open>The desktop application: starting a run\<close>

text \<open>
  \<open>handleRunProcess\<close> reads the store, may write to it, and may start
  \<open>performScanLoop\<close> on a copy of the selected identifiers. The result is the store
  after the call and the argument of the scan loop when one is started; every remote
  call of a run is made by the scan loop.
\<close>

definition no_sort_rules_message :: string where
  "no_sort_rules_message = ''No sort rules defined! Please add rules or disable sorting.''"

definition handleRunProcess :: "AppState \<Rightarrow> AppState \<times> string list option" where
  "handleRunProcess state =
     (if length (selectedPlaylistIds state) = 0 then (state, None)
      else
        let st1 = resetCancel state in
        if sortEnabled state \<and> length (sortRules state) = 0
        then (setStatus no_sort_rules_message st1, None)
        else (st1\<lparr>isProcessing := True\<rparr>, Some (selectedPlaylistIds state)))"

section \<open>The desktop application: the scan loop\<close>

text \<open>
  \<open>performScanLoop\<close> awaits calls to the backend and reads the store and the review
  queue while it runs. What the environment answers is given by a \<open>scan_env\<close>, indexed
  by the iteration (the source's \<open>currentIndex\<close>; \<open>total_n\<close> is its \<open>total\<close>); what the loop does is the list of
  its effects, in order.
\<close>

datatype change_type = Replace | Duplicate

record ReviewChange =
  change_id :: string
  change_kind :: change_type
  newTitle :: "string option"
  newArtist :: "string option"
  newAlbum :: "string option"
  newDate :: "string option"
  remTitle :: "string option"
  remArtist :: "string option"
  remAlbum :: "string option"
  remDate :: "string option"
  track_uri :: "string option"

record ScanStats =
  original_count :: nat
  duplicates_removed :: nat
  versions_replaced :: nat
  sorted :: bool

record ScanResult =
  result_playlist_id :: string
  result_name :: string
  changes :: "ReviewChange list"
  stats :: ScanStats





















section \<open>The server dashboard: run now\<close>






















section \<open>Example states\<close>

text \<open>Example states: the default rules, one rule, and two rules under one identifier.\<close>

definition default_store :: AppState where
  "default_store = initial_state ''a'' ''b'' ''c'' ''d''"

definition one_rule_store :: AppState where
  "one_rule_store =
     default_store\<lparr>sortRules := [\<lparr>rule_id = ''a'', criteria = ''Artist'', descending = False\<rparr>]\<rparr>"

definition twin_rule_store :: AppState where
  "twin_rule_store =
     default_store\<lparr>sortRules := [\<lparr>rule_id = ''a'', criteria = ''Artist'', descending = False\<rparr>,
                                 \<lparr>rule_id = ''a'', criteria = ''Album'', descending = True\<rparr>]\<rparr>"



text \<open>Five additions to the initial state: the fifth finds eight rules and adds nothing.\<close>

definition five_additions :: "rule_action list" where
  "five_additions =
     [AddRule ''n1'' None, AddRule ''n2'' None, AddRule ''n3'' None, AddRule ''n4'' None,
      AddRule ''n5'' None]"

section \<open>Properties of the rate-limit panel\<close>

text \<open>
  Claim C1. The rate-limit classification splits on a threshold of 120 seconds: a
  remaining wait of 60 seconds is shown as the short local cooldown
  (\<open>Local Safety Back-off\<close>), a remaining wait of 90000 seconds as the long lock
  (\<open>Spotify Account Lock\<close>), and a wait of exactly 120 seconds is on one fixed side, the
  local cooldown: for every wait time the lock is shown exactly when the wait exceeds
  120 seconds.
\<close>

theorem rate_limit_classification:
  "panel_title (rateLimitPanel 60) = ''Local Safety Back-off''
   \<and> panel_title (rateLimitPanel 90000) = ''Spotify Account Lock''
   \<and> panel_title (rateLimitPanel 120) = ''Local Safety Back-off''
   \<and> (\<forall>w. panel_title (rateLimitPanel w) =
          (if 120 < w then ''Spotify Account Lock'' else ''Local Safety Back-off''))"
  by (auto simp: rateLimitPanel_def Let_def)

section \<open>Properties of the simple-frequency view\<close>

lemmas cron_simps =
  parseCronToSimple_def updateCronFromSimple_def hourly_pattern_def interval_pattern_def
  daily_pattern_def weekly_pattern_def monthly_pattern_def reset_simple_def
  time_of_fields_def pad_def padStart2_def num_to_string_def parseInt_or_0_def
  nth_or_undefined_def

lemmas number_simps =
  parseInt_def is_space_def parse_unsigned_def apply_sign_def
  digit_val_def int_to_string_def nat_to_string.simps digit_char_def

text \<open>
  Claim C2. The cron expression \<open>0 */6 * * *\<close> parses to the frequency \<open>interval\<close> with
  interval 6, and encoding that simple form again gives the same cron expression,
  whatever the component state was before.
\<close>

theorem cron_every_6_hours_round_trip:
  "simpleFreq (parseCronToSimple ''0 */6 * * *'' st) = Interval
   \<and> simpleInterval (parseCronToSimple ''0 */6 * * *'' st) = 6
   \<and> cron_expression (updateCronFromSimple (parseCronToSimple ''0 */6 * * *'' st))
       = ''0 */6 * * *''"
  by (simp add: cron_simps number_simps Let_def)

text \<open>
  None of the five tests holds exactly when the month field is not \<open>*\<close>, or both the
  day-of-month and the day-of-week fields are not \<open>*\<close>.
\<close>

lemma no_pattern_iff:
  "(\<not> hourly_pattern minf hour domf mon dow \<and> \<not> interval_pattern minf hour domf mon dow
    \<and> \<not> daily_pattern minf hour domf mon dow \<and> \<not> weekly_pattern minf hour domf mon dow
    \<and> \<not> monthly_pattern minf hour domf mon dow)
   = (mon \<noteq> ''*'' \<or> (domf \<noteq> ''*'' \<and> dow \<noteq> ''*''))"
  unfolding hourly_pattern_def interval_pattern_def daily_pattern_def weekly_pattern_def
    monthly_pattern_def
  by blast



text \<open>
  The daily test looks at the last three fields only. An expression such as
  \<open>*/15 * * * *\<close> therefore takes the daily branch, not the fallback, and its time is
  built from \<open>parseInt\<close> of fields that hold no number; encoding the result gives
  \<open>0 0 * * *\<close>.
\<close>

lemma daily_branch_on_non_numeric_fields:
  "simpleFreq (parseCronToSimple ''*/15 * * * *'' st) = Daily
   \<and> simpleTime (parseCronToSimple ''*/15 * * * *'' st) = ''NaN:NaN''
   \<and> cron_expression (updateCronFromSimple (parseCronToSimple ''*/15 * * * *'' st))
       = ''0 0 * * *''"
  by (simp add: cron_simps number_simps Let_def)

text \<open>
  Claim C10. For a string with fewer than five space-separated fields the decomposition
  returns at once and leaves the component state, and so every simple-mode field, as it
  was: no reset to the defaults and no fallback to daily at \<open>00:00\<close>.
\<close>

theorem short_cron_leaves_state:
  "length (split_str CHR '' '' cron) < 5 \<Longrightarrow> parseCronToSimple cron st = st"
  by (simp add: parseCronToSimple_def Let_def)

theorem short_cron_leaves_state_witness:
  "length (split_str CHR '' '' ''30 7 * *'') < 5
   \<and> parseCronToSimple ''30 7 * *''
        (initial_form\<lparr>simpleFreq := Monthly, simpleInterval := 4, simpleTime := ''07:30'',
                      simpleDow := ''3'', simpleDom := ''15''\<rparr>)
       = initial_form\<lparr>simpleFreq := Monthly, simpleInterval := 4, simpleTime := ''07:30'',
                      simpleDow := ''3'', simpleDom := ''15''\<rparr>"
proof -
  have short: "length (split_str CHR '' '' ''30 7 * *'') < 5"
    by simp
  from short short_cron_leaves_state [OF short] show ?thesis
    by simp
qed

section \<open>Properties of the sort-rule actions\<close>

lemma addSortRule_length:
  "length (sortRules st) \<le> 8 \<Longrightarrow> length (sortRules (addSortRule gid rule st)) \<le> 8"
  by (simp add: addSortRule_def)

lemma removeSortRule_length:
  "length (sortRules (removeSortRule i st)) \<le> length (sortRules st)"
  by (simp add: removeSortRule_def)

lemma updateSortRule_length:
  "length (sortRules (updateSortRule i updates st)) = length (sortRules st)"
  by (simp add: updateSortRule_def)

lemma apply_rule_action_length:
  "length (sortRules st) \<le> 8 \<Longrightarrow> length (sortRules (apply_rule_action a st)) \<le> 8"
proof (cases a)
  case (AddRule gid rule)
  assume "length (sortRules st) \<le> 8"
  with AddRule show ?thesis by (simp add: addSortRule_length)
next
  case (RemoveRule i)
  assume "length (sortRules st) \<le> 8"
  with RemoveRule removeSortRule_length [of i st] show ?thesis by simp
next
  case (UpdateRule i updates)
  assume "length (sortRules st) \<le> 8"
  with UpdateRule show ?thesis by (simp add: updateSortRule_length)
qed

lemma run_rule_actions_length:
  "length (sortRules st) \<le> 8 \<Longrightarrow> length (sortRules (run_rule_actions as st)) \<le> 8"
  by (induction as arbitrary: st) (simp_all add: apply_rule_action_length)

text \<open>
  Claim C9. The sort-rule list is capped at 8 entries: on a state that already holds 8
  or more rules \<open>addSortRule\<close> changes nothing, and from the initial state of four
  rules no sequence of \<open>addSortRule\<close>, \<open>removeSortRule\<close> and \<open>updateSortRule\<close> gives a
  list longer than 8.
\<close>

theorem sort_rules_capped_at_8:
  "(8 \<le> length (sortRules st) \<longrightarrow> addSortRule gid rule st = st)
   \<and> length (sortRules (run_rule_actions as (initial_state g1 g2 g3 g4))) \<le> 8"
  by (simp add: addSortRule_def run_rule_actions_length initial_state_def)

theorem sort_rules_capped_at_8_witness:
  "8 \<le> length (sortRules (run_rule_actions (butlast five_additions) (initial_state ''a'' ''b'' ''c'' ''d'')))
   \<and> addSortRule ''n5'' None (run_rule_actions (butlast five_additions) (initial_state ''a'' ''b'' ''c'' ''d''))
       = run_rule_actions (butlast five_additions) (initial_state ''a'' ''b'' ''c'' ''d'')
   \<and> length (sortRules (run_rule_actions five_additions (initial_state ''a'' ''b'' ''c'' ''d''))) = 8"
  using sort_rules_capped_at_8
          [of "run_rule_actions (butlast five_additions) (initial_state ''a'' ''b'' ''c'' ''d'')"
              "''n5''" None five_additions "''a''" "''b''" "''c''" "''d''"]
  by (simp add: five_additions_def initial_state_def addSortRule_def)

lemma filter_distinct_ids_nonempty:
  assumes "distinct (map rule_id rs)" and "2 \<le> length rs"
  shows "filter (\<lambda>r. rule_id r \<noteq> i) rs \<noteq> []"
proof (cases rs)
  case Nil
  with assms show ?thesis by simp
next
  case outer: (Cons r1 rest)
  show ?thesis
  proof (cases rest)
    case Nil
    with outer assms show ?thesis by simp
  next
    case (Cons r2 rest2)
    with outer assms have "rule_id r1 \<noteq> rule_id r2" by auto
    with Cons outer show ?thesis by auto
  qed
qed

lemma removeSortRule_keeps_nonempty:
  assumes "sortRules st \<noteq> []" and "distinct (map rule_id (sortRules st))"
  shows "sortRules (removeSortRule i st) \<noteq> []"
proof (cases "length (sortRules st) \<le> 1")
  case True
  with assms show ?thesis by (simp add: removeSortRule_def)
next
  case False
  then have "2 \<le> length (sortRules st)" by simp
  with assms(2) have "filter (\<lambda>r. rule_id r \<noteq> i) (sortRules st) \<noteq> []"
    by (rule filter_distinct_ids_nonempty)
  with False show ?thesis by (simp add: removeSortRule_def)
qed

text \<open>
  Claim C8, as the code has it. On a state with a non-empty rule list:
  \<open>removeSortRule\<close> leaves the list non-empty when the rule identifiers are pairwise
  distinct, and is a no-op when one rule remains; \<open>reorderSortRules\<close> installs the list
  it is given, so the result is non-empty when that list is a rearrangement of the
  current rules, and empty exactly when the given list is empty.
\<close>

theorem sort_rules_stay_nonempty:
  assumes "sortRules st \<noteq> []"
  shows "(distinct (map rule_id (sortRules st)) \<longrightarrow> sortRules (removeSortRule i st) \<noteq> [])
   \<and> (length (sortRules st) = 1 \<longrightarrow> removeSortRule i st = st)
   \<and> (mset newOrder = mset (sortRules st) \<longrightarrow> sortRules (reorderSortRules newOrder st) \<noteq> [])
   \<and> (sortRules (reorderSortRules newOrder st) = [] \<longleftrightarrow> newOrder = [])"
proof -
  have a: "distinct (map rule_id (sortRules st)) \<longrightarrow> sortRules (removeSortRule i st) \<noteq> []"
    using assms removeSortRule_keeps_nonempty by blast
  have b: "length (sortRules st) = 1 \<longrightarrow> removeSortRule i st = st"
    by (simp add: removeSortRule_def)
  have c: "mset newOrder = mset (sortRules st) \<longrightarrow> sortRules (reorderSortRules newOrder st) \<noteq> []"
    using assms by (auto simp: reorderSortRules_def)
  have d: "sortRules (reorderSortRules newOrder st) = [] \<longleftrightarrow> newOrder = []"
    by (simp add: reorderSortRules_def)
  from a b c d show ?thesis by blast
qed

theorem sort_rules_stay_nonempty_witness:
  "sortRules default_store \<noteq> []
   \<and> distinct (map rule_id (sortRules default_store))
   \<and> map rule_id (sortRules (removeSortRule ''b'' default_store)) = [''a'', ''c'', ''d'']
   \<and> map rule_id (sortRules (reorderSortRules (rev (sortRules default_store)) default_store))
       = [''d'', ''c'', ''b'', ''a'']
   \<and> sortRules one_rule_store \<noteq> []
   \<and> removeSortRule ''a'' one_rule_store = one_rule_store"
proof -
  have ne: "sortRules default_store \<noteq> []"
    by (simp add: default_store_def initial_state_def)
  have ne1: "sortRules one_rule_store \<noteq> []"
    by (simp add: one_rule_store_def)
  from sort_rules_stay_nonempty [OF ne, of "''b''" "rev (sortRules default_store)"]
       sort_rules_stay_nonempty [OF ne1, of "''a''" "[]"]
  show ?thesis
    by (simp add: default_store_def one_rule_store_def initial_state_def removeSortRule_def
                  reorderSortRules_def)
qed

text \<open>
  Against claim C8 as stated: from the default rules, \<open>reorderSortRules\<close> with the empty
  list leaves no rule, and on two rules that carry one identifier \<open>removeSortRule\<close>
  removes both.
\<close>

theorem sort_rules_emptied_counterexample:
  "sortRules default_store \<noteq> []
   \<and> sortRules (reorderSortRules [] default_store) = []
   \<and> sortRules twin_rule_store \<noteq> []
   \<and> sortRules (removeSortRule ''a'' twin_rule_store) = []"
  by (simp add: default_store_def twin_rule_store_def initial_state_def reorderSortRules_def
                removeSortRule_def)

text \<open>
  \<open>updateSortRule\<close> spreads every field of its update, the identifier too, so two
  store actions lead from distinct identifiers to an empty list.
\<close>

lemma update_then_remove_empties:
  "sortRules (removeSortRule ''b''
     (updateSortRule ''a'' \<lparr>opt_id = Some ''b'', opt_criteria = None, opt_descending = None\<rparr>
        (default_store\<lparr>sortRules := take 2 (sortRules default_store)\<rparr>))) = []"
  by (simp add: default_store_def initial_state_def updateSortRule_def removeSortRule_def
                spread_rule_def)

section \<open>Properties of starting a run\<close>


text \<open>
  With no playlist selected the handler returns at its first line, before the test of
  the sort rules: nothing is started and nothing is written, the status text included.
\<close>

lemma run_without_selection_is_silent:
  "selectedPlaylistIds st = [] \<Longrightarrow> handleRunProcess st = (st, None)"
  by (simp add: handleRunProcess_def)



section \<open>Properties of run now\<close>












section \<open>Properties of the scan loop\<close>
























end
